theory Spec2Isabelle
  imports Complex_Main
begin

section \<open>Number model\<close>

text \<open>
  The program computes with IEEE double precision numbers. The engine's arithmetic is
  idealised here as arithmetic of \<^typ>\<open>real\<close>: no rounding, no overflow. Rounding is
  modelled (by \<open>fl\<close> below) where it decides which way the program goes: in the Kelvin
  temperature that the fractionation functions compare with their threshold, and in the
  quotient whose integer part is the number of altitude levels; the two pressure
  conversions of \<^verbatim>\<open>MetFun.py\<close> are given a second time with every operation rounded, for
  their round trip in floating point. Python's \<^verbatim>\<open>**\<close> with a
  fractional exponent is \<^const>\<open>powr\<close>, which agrees with it on a non-negative base only;
  \<^verbatim>\<open>math.exp\<close> is \<^const>\<open>exp\<close>. Where the program would continue with an infinity, a NaN or a complex
  number in an intermediate array (a pole of a formula, a negative base of a fractional
  power), the engine below stops with \<open>FloatDomain\<close>: the model says nothing about such
  runs. The precipitation array is the one place where non-finite numbers are part of the
  normal behaviour (the cleanup stores NaN, the mass balance divides), so its entries are
  of type \<open>fval\<close>.
\<close>

datatype error = ZeroDivisionError | ValueError | IndexError | FloatDomain

datatype fval = Num real | NaN | PosInf | NegInf

text \<open>
  Rounding to the nearest double, ties to even. A double has 53 significant bits: in the
  binade \<open>2 ^ e \<le> |x| < 2 ^ (e + 1)\<close> the doubles are the integer multiples of
  \<open>2 ^ (e - 52)\<close>, and \<open>fl x\<close> is the multiple nearest to \<open>x\<close>. The exponent is not bounded:
  overflow and subnormal numbers are left out. A decimal literal of the source, such as
  \<^verbatim>\<open>273.15\<close>, denotes the double \<open>fl 273.15\<close>.
\<close>

definition rne :: "real \<Rightarrow> int" where
  "rne q =
     (let f = \<lfloor>q\<rfloor>; r = q - of_int f
      in if r < 1 / 2 then f
         else if 1 / 2 < r then f + 1
         else if even f then f else f + 1)"

definition binade :: "real \<Rightarrow> int" where
  "binade x = \<lfloor>log 2 \<bar>x\<bar>\<rfloor>"

definition fl :: "real \<Rightarrow> real" where
  "fl x =
     (if x = 0 then 0
      else of_int (rne (x / 2 powr of_int (binade x - 52))) * 2 powr of_int (binade x - 52))"

text \<open>Division of numpy arrays: division by zero gives NaN or a signed infinity and a
  warning, never an exception.\<close>

definition np_divide :: "real \<Rightarrow> real \<Rightarrow> fval" where
  "np_divide a b =
     (if b \<noteq> 0 then Num (a / b)
      else if a = 0 then NaN
      else if 0 < a then PosInf else NegInf)"

text \<open>\<^verbatim>\<open>np.int\<close> is Python's \<^verbatim>\<open>int\<close>: truncation towards zero.\<close>

definition np_int :: "real \<Rightarrow> int" where
  "np_int x = (if 0 \<le> x then \<lfloor>x\<rfloor> else \<lceil>x\<rceil>)"

text \<open>\<^verbatim>\<open>np.linspace(start, stop, num)\<close> with the end point included: \<open>num\<close> samples,
  \<open>(stop - start) / (num - 1)\<close> apart.\<close>

definition linspace :: "real \<Rightarrow> real \<Rightarrow> nat \<Rightarrow> real list" where
  "linspace start stop num =
     (if num = 1 then [start]
      else map (\<lambda>i. start + real i * ((stop - start) / real (num - 1))) [0..<num])"

section \<open>MetFun.py\<close>

definition m2hPa :: "real \<Rightarrow> real" where
  "m2hPa m = (1 - (m / 44307.69396)) powr (1 / 0.190284) * 1013.25"




definition rhoAir :: "real \<Rightarrow> real \<Rightarrow> real" where
  "rhoAir z T =
     (let Rair = 287.058;
          T = T + 273.15;
          airP = (1 - (z / 44307.69396)) powr (1 / 0.190284) * 1013.25
      in 100 * airP / (Rair * T))"

definition SatVapPress :: "real \<Rightarrow> real" where
  "SatVapPress T = 6.1121 * exp ((18.678 - T / 234.5) * (T / (257.14 + T)))"

section \<open>EqFracFact.py\<close>

text \<open>The two branches of each function, named after the references the module's
  docstring gives for them; the argument is the temperature in Kelvin. The functions
  themselves add \<^verbatim>\<open>273.15\<close> to the Celsius temperature and compare the sum, a double,
  with the double \<^verbatim>\<open>268.16\<close>.\<close>

definition majoube18 :: "real \<Rightarrow> real" where
  "majoube18 K = exp ((1137 / (K ^ 2)) - (0.4156 / K) - 0.0020667)"

definition ellehoj18 :: "real \<Rightarrow> real" where
  "ellehoj18 K = exp ((8312.58 / (K ^ 2)) - (49.192 / K) + 0.0831)"

definition majoube2 :: "real \<Rightarrow> real" where
  "majoube2 K = exp ((24844 / (K ^ 2)) - (76.248 / K) + 0.052612)"

definition ellehoj2 :: "real \<Rightarrow> real" where
  "ellehoj2 K = exp ((48888 / (K ^ 2)) - (203.10 / K) + 0.2133)"

definition alpha18 :: "real \<Rightarrow> real" where
  "alpha18 T =
     (let T = fl (T + fl 273.15)
      in if T \<ge> fl 268.16 then majoube18 T else ellehoj18 T)"

definition alpha2 :: "real \<Rightarrow> real" where
  "alpha2 T =
     (let T = fl (T + fl 273.15)
      in if T \<ge> fl 268.16 then majoube2 T else ellehoj2 T)"

section \<open>AltitudeEffect.py\<close>

subsection \<open>Settings\<close>

record config =
  MLR :: real
  MinZ :: real
  MaxZ :: real
  Zres :: real
  Tz0 :: real
  P0 :: real
  RH0 :: real
  d18O0 :: real
  dD0 :: real

text \<open>The values the script sets.\<close>

definition settings :: config where
  "settings =
     \<lparr>MLR = 5, MinZ = 0, MaxZ = 4000, Zres = 10, Tz0 = 20, P0 = 1013.25,
      RH0 = 85 / 100, d18O0 = - 12, dD0 = 10 + (8 * (- 12))\<rparr>"

definition VSMOW1816 :: real where
  "VSMOW1816 = 2005.20 * (1 / 1000000)"

definition VSMOW21 :: real where
  "VSMOW21 = 155.76 * (1 / 1000000)"

subsection \<open>The arrays\<close>

record profile =
  Zvector :: "real list"
  Tvector :: "real list"
  VaporConcentration :: "real list"
  VaporComposition :: "(real \<times> real) list"
  VaporFraction :: "real list"
  PrecComposition :: "(fval \<times> fval) list"
  RHvector :: "real list"

text \<open>Memory allocation: the altitude levels first, then the other arrays with as many
  rows. The number of levels is the integer part of the quotient the program computes, a
  double. A zero resolution raises in the division, a negative number of samples raises in
  \<^verbatim>\<open>np.linspace\<close>.\<close>

definition Zvector_of :: "config \<Rightarrow> error + real list" where
  "Zvector_of c =
     (if Zres c = 0 then Inl ZeroDivisionError
      else
        let n = np_int (fl (fl (MaxZ c - MinZ c) / Zres c))
        in if n < 0 then Inl ValueError
           else Inr (linspace (MinZ c) (MaxZ c) (nat n)))"

definition allocate :: "config \<Rightarrow> error + profile" where
  "allocate c =
     (case Zvector_of c of
        Inl e \<Rightarrow> Inl e
      | Inr Zs \<Rightarrow>
          Inr \<lparr>Zvector = Zs,
               Tvector = map (\<lambda>Z. Tz0 c - (Z * MLR c / 1000)) Zs,
               VaporConcentration = replicate (length Zs) 0,
               VaporComposition = replicate (length Zs) (0, 0),
               VaporFraction = replicate (length Zs) 0,
               PrecComposition = replicate (length Zs) (Num 0, Num 0),
               RHvector = replicate (length Zs) 0\<rparr>)"

subsection \<open>Initial conditions\<close>

text \<open>The right-hand side of the first assignment is evaluated on Python numbers, so a
  zero divisor raises; storing into an empty array raises \<open>IndexError\<close>.\<close>

definition assign_initial :: "config \<Rightarrow> profile \<Rightarrow> error + profile" where
  "assign_initial c st =
     (if 257.14 + Tz0 c = 0 \<or> P0 c = 0 then Inl ZeroDivisionError
      else if VaporConcentration st = [] then Inl IndexError
      else Inr (st
        \<lparr>VaporConcentration :=
           (VaporConcentration st)[0 := 1000000 * (RH0 c) * SatVapPress (Tz0 c) / P0 c],
         VaporFraction := (VaporFraction st)[0 := 1],
         RHvector := (RHvector st)[0 := RH0 c],
         VaporComposition := (VaporComposition st)[0 := (d18O0 c, dD0 c)]\<rparr>))"

definition R1816_0_VAP :: "config \<Rightarrow> real" where
  "R1816_0_VAP c = ((d18O0 c * 0.001) + 1) * VSMOW1816"

definition R21_0_VAP :: "config \<Rightarrow> real" where
  "R21_0_VAP c = ((dD0 c * 0.001) + 1) * VSMOW21"

subsection \<open>Lifting the air mass\<close>

text \<open>The right-hand side of the mass balance of the precipitation, for one isotope:
  \<open>f'\<close> and \<open>d'\<close> are the vapor fraction and the vapor delta of level \<open>z - 1\<close>, \<open>f\<close> and
  \<open>d\<close> those of level \<open>z\<close>.\<close>

definition mass_balance :: "real \<Rightarrow> real \<Rightarrow> real \<Rightarrow> real \<Rightarrow> fval" where
  "mass_balance f' d' f d = np_divide (f' * d' - f * d) (f' - f)"

text \<open>
  The body of the loop at level \<open>z\<close>. Every assignment of the source is one update of
  the state, and every read goes to the array as it stands at that moment. The argument
  of \<open>m2hPa\<close> is the loop index \<open>z\<close>, as in the source.
\<close>

definition lift_level :: "config \<Rightarrow> nat \<Rightarrow> profile \<Rightarrow> error + profile" where
  "lift_level c z st =
     (let T = Tvector st ! z in
      if 257.14 + T = 0 then Inl FloatDomain
      else
        let st1 = st\<lparr>RHvector := (RHvector st)
                    [z := ((VaporConcentration st ! (z - 1) / 1000000) * P0 c) / SatVapPress T]\<rparr>
        in
        if RHvector st1 ! z > 1.05 then
          (if 44307.69396 < real z \<or> T + 273.15 = 0 \<or> VaporConcentration st1 ! 0 \<le> 0
           then Inl FloatDomain
           else
             let st2 = st1\<lparr>VaporConcentration := (VaporConcentration st1)
                         [z := 1000000 * SatVapPress T / m2hPa (real z)]\<rparr>;
                 st3 = st2\<lparr>VaporFraction := (VaporFraction st2)
                         [z := VaporConcentration st2 ! z / VaporConcentration st2 ! 0]\<rparr>;
                 R1816_VAP = R1816_0_VAP c * (VaporFraction st3 ! z) powr (alpha18 T - 1);
                 R21_VAP = R21_0_VAP c * (VaporFraction st3 ! z) powr (alpha18 T - 1);
                 st4 = st3\<lparr>VaporComposition := (VaporComposition st3)
                         [z := ((R1816_VAP / VSMOW1816 - 1) * 1000,
                                (R21_VAP / VSMOW21 - 1) * 1000)]\<rparr>;
                 st5 = st4\<lparr>PrecComposition := (PrecComposition st4)
                         [z := (mass_balance
                                  (VaporFraction st4 ! (z - 1)) (fst (VaporComposition st4 ! (z - 1)))
                                  (VaporFraction st4 ! z) (fst (VaporComposition st4 ! z)),
                                mass_balance
                                  (VaporFraction st4 ! (z - 1)) (snd (VaporComposition st4 ! (z - 1)))
                                  (VaporFraction st4 ! z) (snd (VaporComposition st4 ! z)))]\<rparr>
             in Inr st5)
        else
          Inr (st1
            \<lparr>VaporConcentration := (VaporConcentration st1)[z := VaporConcentration st1 ! (z - 1)],
             VaporFraction := (VaporFraction st1)[z := VaporFraction st1 ! (z - 1)],
             VaporComposition := (VaporComposition st1)[z := VaporComposition st1 ! (z - 1)],
             PrecComposition := (PrecComposition st1)[z := PrecComposition st1 ! (z - 1)]\<rparr>))"

text \<open>The \<^verbatim>\<open>for\<close> loop over the levels \<open>zs\<close>; the first failing level ends the run.\<close>

fun lift :: "config \<Rightarrow> nat list \<Rightarrow> profile \<Rightarrow> error + profile" where
  "lift c [] st = Inr st"
| "lift c (z # zs) st =
     (case lift_level c z st of
        Inl e \<Rightarrow> Inl e
      | Inr st' \<Rightarrow> lift c zs st')"

subsection \<open>Cleaning the precipitation array\<close>

text \<open>The \<^verbatim>\<open>while\<close> loop: it reads row \<open>i\<close> before it tests anything else, so it
  raises when \<open>i\<close> reaches the length of the array.\<close>

function clean :: "nat \<Rightarrow> (fval \<times> fval) list \<Rightarrow> error + nat \<times> (fval \<times> fval) list" where
  "clean i pc =
     (if length pc \<le> i then Inl IndexError
      else if fst (pc ! i) = Num 0 then clean (i + 1) (pc[i := (NaN, NaN)])
      else Inr (i, pc))"
  by pat_completeness auto
termination
  by (relation "measure (\<lambda>(i, pc). length pc - i)") auto

declare clean.simps [simp del]

subsection \<open>The simulation\<close>

text \<open>Allocation and initial conditions: the state the loop starts from.\<close>

definition start :: "config \<Rightarrow> error + profile" where
  "start c =
     (case allocate c of
        Inl e \<Rightarrow> Inl e
      | Inr st0 \<Rightarrow> assign_initial c st0)"

definition forward_pass :: "config \<Rightarrow> error + profile" where
  "forward_pass c =
     (case start c of
        Inl e \<Rightarrow> Inl e
      | Inr st1 \<Rightarrow> lift c [1..<length (Zvector st1)] st1)"

text \<open>The result is the final value of the index \<open>i\<close> and the arrays.\<close>

definition simulate :: "config \<Rightarrow> error + nat \<times> profile" where
  "simulate c =
     (case forward_pass c of
        Inl e \<Rightarrow> Inl e
      | Inr st \<Rightarrow>
          (case clean 0 (PrecComposition st) of
             Inl e \<Rightarrow> Inl e
           | Inr (i, pc) \<Rightarrow> Inr (i, st\<lparr>PrecComposition := pc\<rparr>)))"

subsection \<open>Vocabulary of the properties\<close>

text \<open>All seven arrays have \<open>n\<close> rows.\<close>

definition rows :: "nat \<Rightarrow> profile \<Rightarrow> bool" where
  "rows n st \<longleftrightarrow>
     length (Zvector st) = n \<and> length (Tvector st) = n \<and>
     length (VaporConcentration st) = n \<and> length (VaporComposition st) = n \<and>
     length (VaporFraction st) = n \<and> length (PrecComposition st) = n \<and>
     length (RHvector st) = n"

text \<open>The relative humidity the loop computes at level \<open>z\<close> from the state before it.\<close>

definition humidity :: "config \<Rightarrow> nat \<Rightarrow> profile \<Rightarrow> real" where
  "humidity c z st =
     ((VaporConcentration st ! (z - 1) / 1000000) * P0 c) / SatVapPress (Tvector st ! z)"

text \<open>An absolute isotope ratio from a delta value, as the source does for level 0.\<close>

definition ratio_of_delta :: "real \<Rightarrow> real \<Rightarrow> real" where
  "ratio_of_delta vsmow d = ((d * 0.001) + 1) * vsmow"

text \<open>Two profiles hold the same values at level \<open>j\<close>.\<close>

definition same_row :: "profile \<Rightarrow> profile \<Rightarrow> nat \<Rightarrow> bool" where
  "same_row st st' j \<longleftrightarrow>
     VaporConcentration st' ! j = VaporConcentration st ! j \<and>
     VaporFraction st' ! j = VaporFraction st ! j \<and>
     VaporComposition st' ! j = VaporComposition st ! j \<and>
     PrecComposition st' ! j = PrecComposition st ! j \<and>
     RHvector st' ! j = RHvector st ! j"

text \<open>Level \<open>z\<close> of a profile holds what the loop body computes from levels \<open>z - 1\<close>
  and \<open>0\<close> of the same profile. The loop establishes this for every level it has passed
  (\<open>lift_settled\<close> below); it is used in proofs only.\<close>

definition settled :: "config \<Rightarrow> profile \<Rightarrow> nat \<Rightarrow> bool" where
  "settled c st z \<longleftrightarrow>
     RHvector st ! z = humidity c z st \<and>
     (if RHvector st ! z > 1.05 then
        VaporConcentration st ! z = 1000000 * SatVapPress (Tvector st ! z) / m2hPa (real z) \<and>
        VaporFraction st ! z = VaporConcentration st ! z / VaporConcentration st ! 0 \<and>
        VaporComposition st ! z =
          ((R1816_0_VAP c * (VaporFraction st ! z) powr (alpha18 (Tvector st ! z) - 1)
              / VSMOW1816 - 1) * 1000,
           (R21_0_VAP c * (VaporFraction st ! z) powr (alpha18 (Tvector st ! z) - 1)
              / VSMOW21 - 1) * 1000) \<and>
        PrecComposition st ! z =
          (np_divide
             (VaporFraction st ! (z - 1) * fst (VaporComposition st ! (z - 1))
               - VaporFraction st ! z * fst (VaporComposition st ! z))
             (VaporFraction st ! (z - 1) - VaporFraction st ! z),
           np_divide
             (VaporFraction st ! (z - 1) * snd (VaporComposition st ! (z - 1))
               - VaporFraction st ! z * snd (VaporComposition st ! z))
             (VaporFraction st ! (z - 1) - VaporFraction st ! z)) \<and>
        real z \<le> 44307.69396 \<and> 0 < VaporConcentration st ! 0
      else
        VaporConcentration st ! z = VaporConcentration st ! (z - 1) \<and>
        VaporFraction st ! z = VaporFraction st ! (z - 1) \<and>
        VaporComposition st ! z = VaporComposition st ! (z - 1) \<and>
        PrecComposition st ! z = PrecComposition st ! (z - 1))"

subsection \<open>Example configurations\<close>

text \<open>The script's settings on a grid of two levels, 0 m and 4000 m: the upper level
  condenses.\<close>

definition coarse :: config where
  "coarse = settings\<lparr>Zres := 2000\<rparr>"

text \<open>The script's settings on a grid of two levels, 0 m and 20 m: nothing condenses.\<close>

definition shallow :: config where
  "shallow = settings\<lparr>MaxZ := 20\<rparr>"

text \<open>The script's settings with dry air: 10 % relative humidity at the base, on the
  script's 400 levels. Nothing condenses.\<close>

definition arid :: config where
  "arid = settings\<lparr>RH0 := 0.1\<rparr>"


text \<open>An isothermal column on two levels whose base pressure is twice the pressure
  \<open>m2hPa\<close> gives for index 1, with a base humidity of 2 and vapor of the composition of
  the standard (both deltas 0): level 1 condenses and receives exactly the vapor
  concentration and the composition of level 0.\<close>

definition degenerate :: config where
  "degenerate =
     settings\<lparr>MLR := 0, Zres := 2000, RH0 := 2, P0 := 2 * m2hPa 1, d18O0 := 0, dD0 := 0\<rparr>"


section \<open>Rounding\<close>

text \<open>How \<open>fl\<close> is evaluated: away from a tie, \<open>rne\<close> is the nearest integer, and the
  binade of a number is read off two bounds.\<close>

lemma rne_eqI: "\<bar>q - of_int n\<bar> < 1 / 2 \<Longrightarrow> rne q = n"
proof -
  assume a: "\<bar>q - of_int n\<bar> < 1 / 2"
  show ?thesis
  proof (cases "of_int n \<le> q")
    case True
    then have f: "\<lfloor>q\<rfloor> = n" using a by (intro floor_unique) (simp_all add: abs_if split: if_splits)
    show ?thesis using a True by (simp add: rne_def Let_def f)
  next
    case False
    then have f: "\<lfloor>q\<rfloor> = n - 1" using a by (intro floor_unique) (simp_all add: abs_if split: if_splits)
    show ?thesis using a False by (simp add: rne_def Let_def f)
  qed
qed

lemma binade_eqI:
  assumes "2 powr of_int e \<le> \<bar>x\<bar>" and "\<bar>x\<bar> < 2 powr of_int (e + 1)"
  shows "binade x = e"
proof -
  have p: "0 < \<bar>x\<bar>" using assms(1) powr_gt_zero [of 2 "of_int e"] by linarith
  have "of_int e \<le> log 2 \<bar>x\<bar>" using assms(1) p by (simp add: le_log_iff)
  moreover have "log 2 \<bar>x\<bar> < of_int e + 1" using assms(2) p by (simp add: log_less_iff)
  ultimately show ?thesis unfolding binade_def by (intro floor_unique) simp_all
qed

text \<open>Numbers from 1 up: \<open>2 ^ n \<le> |x| < 2 ^ (n + 1)\<close> with \<open>n \<le> 52\<close>.\<close>

lemma fl_upI:
  assumes "2 ^ n \<le> \<bar>x\<bar>" and "\<bar>x\<bar> < 2 * 2 ^ n" and "n \<le> 52"
    and "\<bar>x * 2 ^ (52 - n) - of_int m\<bar> < 1 / 2"
  shows "fl x = of_int m / 2 ^ (52 - n)"
proof -
  have b: "binade x = int n"
    using assms(1,2) by (intro binade_eqI) (simp_all add: powr_realpow powr_add)
  have "(0::real) < 2 ^ n" by simp
  with assms(1) have "0 < \<bar>x\<bar>" by linarith
  then have x: "x \<noteq> 0" by simp
  have "real_of_int (int n - 52) = - real (52 - n)" using assms(3) by simp
  then have u: "(2::real) powr of_int (binade x - 52) = 1 / 2 ^ (52 - n)"
    unfolding b by (simp only: powr_minus powr_realpow) (simp add: powr_realpow field_simps)
  have r: "rne (x / (1 / 2 ^ (52 - n))) = m" using assms(4) by (intro rne_eqI) simp
  show ?thesis unfolding fl_def u r using x by simp
qed




lemma fl_2: "fl 2 = 2"
  using fl_upI [of 1 2 "2 ^ 52"] by simp

lemma fl_20: "fl 20 = 20"
  using fl_upI [of 4 20 "20 * 2 ^ 48"] by simp


lemma fl_400: "fl 400 = 400"
  using fl_upI [of 8 400 "400 * 2 ^ 44"] by simp

lemma fl_4000: "fl 4000 = 4000"
  using fl_upI [of 11 4000 "4000 * 2 ^ 41"] by simp




lemma fl_273_15: "fl 273.15 = 2402652809016115 / 8796093022208"
  using fl_upI [of 8 "273.15" 4805305618032230] by simp

lemma fl_268_16: "fl 268.16 = 4717520609670595 / 17592186044416"
  using fl_upI [of 8 "268.16" 4717520609670595] by simp

lemma fl_263_15: "fl 263.15 = 2314691878794035 / 8796093022208"
  using fl_upI [of 8 "263.15" 4629383757588070] by simp







lemma fl_delta18: "fl (- 12.00000000000012) = - 1688849860263953 / 140737488355328"
  using fl_upI [of 3 "- 12.00000000000012" "- 6755399441055812"] by simp

lemma fl_deltaD: "fl (- 85.99999999999997) = - 3025855999639551 / 35184372088832"
  using fl_upI [of 6 "- 85.99999999999997" "- 6051711999279102"] by simp

text \<open>The Kelvin temperatures of 0, of \<open>- 10\<close> and of \<^verbatim>\<open>-4.99\<close> degrees Celsius, and the
  Celsius temperature \<^verbatim>\<open>-4.98999999999998\<close>, whose Kelvin temperature is the double
  \<^verbatim>\<open>268.16\<close>.\<close>

lemma kelvin_0: "fl (0 + fl 273.15) = fl 273.15"
  unfolding fl_273_15
  using fl_upI [of 8 "2402652809016115 / 8796093022208" 4805305618032230] by simp

lemma kelvin_minus_10: "fl (- 10 + fl 273.15) = fl 263.15"
  unfolding fl_273_15 fl_263_15
  using fl_upI [of 8 "- 10 + 2402652809016115 / 8796093022208" 4629383757588070] by simp

lemma fl_minus_4_99: "fl (- 4.99) = - 2809120267572347 / 562949953421312"
  using fl_upI [of 2 "- 4.99" "- 5618240535144694"] by simp

lemma kelvin_minus_4_99:
  "fl (fl (- 4.99) + fl 273.15) = 2358760304835297 / 8796093022208"
  unfolding fl_273_15 fl_minus_4_99
  using fl_upI [of 8 "- 2809120267572347 / 562949953421312 + 2402652809016115 / 8796093022208"
      4717520609670594]
  by simp

lemma fl_boundary: "fl (- 4.98999999999998) = - 5618240535144671 / 1125899906842624"
  using fl_upI [of 2 "- 4.98999999999998" "- 5618240535144671"] by simp

lemma kelvin_boundary: "fl (fl (- 4.98999999999998) + fl 273.15) = fl 268.16"
  unfolding fl_273_15 fl_boundary fl_268_16
  using fl_upI [of 8 "- 5618240535144671 / 1125899906842624 + 2402652809016115 / 8796093022208"
      4717520609670595]
  by simp

section \<open>The pure functions\<close>

lemma SatVapPress_pos: "0 < SatVapPress T"
  by (simp add: SatVapPress_def)

lemma SatVapPress_ratio:
  "SatVapPress a / SatVapPress b =
     exp ((18.678 - a / 234.5) * (a / (257.14 + a)) - (18.678 - b / 234.5) * (b / (257.14 + b)))"
  by (simp add: SatVapPress_def exp_diff)

lemma m2hPa_pos: "m < 44307.69396 \<Longrightarrow> 0 < m2hPa m"
  by (simp add: m2hPa_def)








text \<open>
  C3, as the code has it. Both fractionation functions convert the Celsius input to
  Kelvin, a sum computed in double precision; when that sum is the double \<^verbatim>\<open>268.16\<close> or
  more they use the Majoube formula, when it is less the Ellehoj formula. The boundary
  itself belongs to the Majoube branch.
\<close>

theorem alpha_branches:
  "(fl (T + fl 273.15) \<ge> fl 268.16 \<longrightarrow>
      alpha18 T = majoube18 (fl (T + fl 273.15)) \<and> alpha2 T = majoube2 (fl (T + fl 273.15))) \<and>
   (fl (T + fl 273.15) < fl 268.16 \<longrightarrow>
      alpha18 T = ellehoj18 (fl (T + fl 273.15)) \<and> alpha2 T = ellehoj2 (fl (T + fl 273.15)))"
  by (simp add: alpha18_def alpha2_def Let_def)

text \<open>The two branches at \<open>0\<close> and at \<open>- 10\<close> degrees Celsius, and at \<^verbatim>\<open>-4.99\<close> degrees,
  whose Kelvin temperature the program computes as \<^verbatim>\<open>268.15999999999997\<close>.\<close>

theorem alpha_branches_witness:
  "fl (0 + fl 273.15) \<ge> fl 268.16
   \<and> alpha18 0 = majoube18 (fl 273.15) \<and> alpha2 0 = majoube2 (fl 273.15)
   \<and> fl (- 10 + fl 273.15) < fl 268.16
   \<and> alpha18 (- 10) = ellehoj18 (fl 263.15) \<and> alpha2 (- 10) = ellehoj2 (fl 263.15)
   \<and> fl (fl (- 4.99) + fl 273.15) < fl 268.16
   \<and> alpha18 (fl (- 4.99)) = ellehoj18 (fl (fl (- 4.99) + fl 273.15))
   \<and> alpha2 (fl (- 4.99)) = ellehoj2 (fl (fl (- 4.99) + fl 273.15))"
proof -
  have c: "fl 268.16 \<le> fl 273.15" "fl 263.15 < fl 268.16"
    unfolding fl_273_15 fl_263_15 fl_268_16 by simp_all
  have c': "fl (fl (- 4.99) + fl 273.15) < fl 268.16"
    unfolding kelvin_minus_4_99 fl_268_16 by simp
  show ?thesis
    using alpha_branches [of 0] alpha_branches [of "- 10"] alpha_branches [of "fl (- 4.99)"]
    unfolding kelvin_0 kelvin_minus_10 using c c' by simp
qed

text \<open>
  C3 as stated fails at the boundary. For \<^verbatim>\<open>-4.98999999999998\<close> degrees Celsius the
  program computes the Kelvin temperature \<^verbatim>\<open>268.16\<close>, the very double it compares with;
  the claim asks for the Ellehoj formula there, and both functions return the Majoube value,
  which is a different number.
\<close>

theorem alpha_boundary_counterexample:
  "fl (fl (- 4.98999999999998) + fl 273.15) = fl 268.16
   \<and> alpha18 (fl (- 4.98999999999998)) = majoube18 (fl 268.16)
   \<and> alpha18 (fl (- 4.98999999999998)) \<noteq> ellehoj18 (fl 268.16)
   \<and> alpha2 (fl (- 4.98999999999998)) = majoube2 (fl 268.16)
   \<and> alpha2 (fl (- 4.98999999999998)) \<noteq> ellehoj2 (fl 268.16)"
proof -
  have a: "alpha18 (fl (- 4.98999999999998)) = majoube18 (fl 268.16)"
    "alpha2 (fl (- 4.98999999999998)) = majoube2 (fl 268.16)"
    unfolding alpha18_def alpha2_def kelvin_boundary by (simp_all add: Let_def)
  have "majoube18 (fl 268.16) \<noteq> ellehoj18 (fl 268.16)"
    "majoube2 (fl 268.16) \<noteq> ellehoj2 (fl 268.16)"
    unfolding fl_268_16
    by (simp_all add: majoube18_def ellehoj18_def majoube2_def ellehoj2_def power2_eq_square)
  then show ?thesis unfolding a kelvin_boundary by simp
qed

section \<open>One level of the loop\<close>

lemma lift_level_rows:
  "lift_level c z st = Inr st' \<Longrightarrow> rows n st \<Longrightarrow> rows n st'"
  by (auto simp: lift_level_def Let_def rows_def split: if_splits)

lemma lift_level_grid:
  "lift_level c z st = Inr st' \<Longrightarrow> Zvector st' = Zvector st \<and> Tvector st' = Tvector st"
  by (auto simp: lift_level_def Let_def split: if_splits)

lemma lift_level_humidity:
  "lift_level c z st = Inr st' \<Longrightarrow> z < length (RHvector st) \<Longrightarrow>
     RHvector st' ! z = humidity c z st"
  by (auto simp: lift_level_def Let_def humidity_def split: if_splits)

lemma lift_level_frame:
  assumes "lift_level c z st = Inr st'" and "j \<noteq> z"
  shows "VaporConcentration st' ! j = VaporConcentration st ! j"
    and "VaporFraction st' ! j = VaporFraction st ! j"
    and "VaporComposition st' ! j = VaporComposition st ! j"
    and "PrecComposition st' ! j = PrecComposition st ! j"
    and "RHvector st' ! j = RHvector st ! j"
  using assms
  by (auto simp: lift_level_def Let_def split: if_splits)

lemma lift_level_unsaturated:
  assumes "rows n st" and "1 \<le> z" and "z < n"
    and "lift_level c z st = Inr st'"
    and "\<not> humidity c z st > 1.05"
  shows "VaporConcentration st' ! z = VaporConcentration st ! (z - 1)"
    and "VaporFraction st' ! z = VaporFraction st ! (z - 1)"
    and "VaporComposition st' ! z = VaporComposition st ! (z - 1)"
    and "PrecComposition st' ! z = PrecComposition st ! (z - 1)"
  using assms
  by (auto simp: lift_level_def Let_def humidity_def rows_def split: if_splits)

lemma lift_level_saturated:
  assumes "rows n st" and "1 \<le> z" and "z < n"
    and "lift_level c z st = Inr st'"
    and "humidity c z st > 1.05"
  shows "VaporConcentration st' ! z = 1000000 * SatVapPress (Tvector st ! z) / m2hPa (real z)"
    and "VaporFraction st' ! z = VaporConcentration st' ! z / VaporConcentration st ! 0"
    and "VaporComposition st' ! z =
           ((R1816_0_VAP c * (VaporFraction st' ! z) powr (alpha18 (Tvector st ! z) - 1)
               / VSMOW1816 - 1) * 1000,
            (R21_0_VAP c * (VaporFraction st' ! z) powr (alpha18 (Tvector st ! z) - 1)
               / VSMOW21 - 1) * 1000)"
    and "PrecComposition st' ! z =
           (np_divide
              (VaporFraction st ! (z - 1) * fst (VaporComposition st ! (z - 1))
                - VaporFraction st' ! z * fst (VaporComposition st' ! z))
              (VaporFraction st ! (z - 1) - VaporFraction st' ! z),
            np_divide
              (VaporFraction st ! (z - 1) * snd (VaporComposition st ! (z - 1))
                - VaporFraction st' ! z * snd (VaporComposition st' ! z))
              (VaporFraction st ! (z - 1) - VaporFraction st' ! z))"
    and "real z \<le> 44307.69396" and "0 < VaporConcentration st ! 0"
  using assms
  by (auto simp: lift_level_def mass_balance_def Let_def humidity_def rows_def split: if_splits)

text \<open>When the guards of the model hold, the level is computed.\<close>

lemma lift_level_defined:
  assumes "257.14 + Tvector st ! z \<noteq> 0" and "Tvector st ! z + 273.15 \<noteq> 0"
    and "real z \<le> 44307.69396" and "0 < VaporConcentration st ! 0" and "1 \<le> z"
  shows "\<exists>st'. lift_level c z st = Inr st'"
proof (cases "z < length (RHvector st)")
  case True
  with assms show ?thesis by (simp add: lift_level_def Let_def)
next
  case False
  with assms show ?thesis by (simp add: lift_level_def Let_def)
qed

lemma VSMOW_pos: "0 < VSMOW1816" "0 < VSMOW21"
  by (simp_all add: VSMOW1816_def VSMOW21_def)

lemma ratio_of_delta_inverse:
  "v \<noteq> 0 \<Longrightarrow> ratio_of_delta v ((R / v - 1) * 1000) = R"
  by (simp add: ratio_of_delta_def field_simps)

subsection \<open>The two example grids\<close>

lemma upt2: "[0..<2] = [0, 1]"
  by (simp add: numeral_2_eq_2)

lemma start_coarse:
  "start coarse = Inr \<lparr>Zvector = [0, 4000], Tvector = [20, 0],
     VaporConcentration = [1000000 * 0.85 * SatVapPress 20 / 1013.25, 0],
     VaporComposition = [(- 12, - 86), (0, 0)],
     VaporFraction = [1, 0], PrecComposition = [(Num 0, Num 0), (Num 0, Num 0)],
     RHvector = [0.85, 0]\<rparr>"
  by (simp add: start_def assign_initial_def allocate_def Zvector_of_def coarse_def settings_def
      np_int_def linspace_def upt2 Let_def numeral_2_eq_2 fl_4000 fl_2)

lemma start_shallow:
  "start shallow = Inr \<lparr>Zvector = [0, 20], Tvector = [20, 19.9],
     VaporConcentration = [1000000 * 0.85 * SatVapPress 20 / 1013.25, 0],
     VaporComposition = [(- 12, - 86), (0, 0)],
     VaporFraction = [1, 0], PrecComposition = [(Num 0, Num 0), (Num 0, Num 0)],
     RHvector = [0.85, 0]\<rparr>"
  by (simp add: start_def assign_initial_def allocate_def Zvector_of_def shallow_def settings_def
      np_int_def linspace_def upt2 Let_def numeral_2_eq_2 fl_20 fl_2)

text \<open>Bounds on the exponential that place the humidity of the upper level on one side
  of the threshold.\<close>

lemma SatVapPress_0: "SatVapPress 0 = 6.1121"
  by (simp add: SatVapPress_def)

lemma SatVapPress_20_lower: "2 * SatVapPress 0 \<le> SatVapPress 20"
proof -
  let ?x = "(18.678 - 20 / 234.5) * (20 / (257.14 + 20)) :: real"
  have "(2::real) \<le> 1 + ?x" by simp
  also have "\<dots> \<le> exp ?x" by (rule exp_ge_add_one_self)
  finally show ?thesis by (simp add: SatVapPress_def)
qed

lemma SatVapPress_20_upper: "SatVapPress 20 / SatVapPress 19.9 \<le> 1.2"
proof -
  let ?x = "(18.678 - 20 / 234.5) * (20 / (257.14 + 20))
            - (18.678 - 19.9 / 234.5) * (19.9 / (257.14 + 19.9)) :: real"
  have x: "0 \<le> ?x" "?x \<le> 0.1" by simp_all
  have "exp ?x \<le> 1 + ?x + ?x\<^sup>2" using x by (intro exp_bound) simp_all
  also have "\<dots> \<le> 1.2" by (simp add: power2_eq_square)
  finally show ?thesis by (simp only: SatVapPress_ratio)
qed

lemma humidity_coarse:
  assumes "start coarse = Inr st"
  shows "rows 2 st" and "humidity coarse 1 st > 1.05"
    and "\<exists>st'. lift_level coarse 1 st = Inr st'"
proof -
  have st: "st = \<lparr>Zvector = [0, 4000], Tvector = [20, 0],
     VaporConcentration = [1000000 * 0.85 * SatVapPress 20 / 1013.25, 0],
     VaporComposition = [(- 12, - 86), (0, 0)],
     VaporFraction = [1, 0], PrecComposition = [(Num 0, Num 0), (Num 0, Num 0)],
     RHvector = [0.85, 0]\<rparr>"
    using assms by (simp add: start_coarse)
  show "rows 2 st" by (simp add: st rows_def)
  have "humidity coarse 1 st = 0.85 * (SatVapPress 20 / SatVapPress 0)"
    by (simp add: st humidity_def coarse_def settings_def)
  moreover have "2 \<le> SatVapPress 20 / SatVapPress 0"
    using SatVapPress_20_lower SatVapPress_pos [of 0] by (simp add: field_simps)
  ultimately show "humidity coarse 1 st > 1.05" by simp
  have "0 < VaporConcentration st ! 0"
    using SatVapPress_pos [of 20] by (simp add: st)
  then show "\<exists>st'. lift_level coarse 1 st = Inr st'"
    by (intro lift_level_defined) (simp_all add: st)
qed

lemma humidity_shallow:
  assumes "start shallow = Inr st"
  shows "rows 2 st" and "\<not> humidity shallow 1 st > 1.05"
    and "\<exists>st'. lift_level shallow 1 st = Inr st'"
proof -
  have st: "st = \<lparr>Zvector = [0, 20], Tvector = [20, 19.9],
     VaporConcentration = [1000000 * 0.85 * SatVapPress 20 / 1013.25, 0],
     VaporComposition = [(- 12, - 86), (0, 0)],
     VaporFraction = [1, 0], PrecComposition = [(Num 0, Num 0), (Num 0, Num 0)],
     RHvector = [0.85, 0]\<rparr>"
    using assms by (simp add: start_shallow)
  show "rows 2 st" by (simp add: st rows_def)
  have "humidity shallow 1 st = 0.85 * (SatVapPress 20 / SatVapPress 19.9)"
    by (simp add: st humidity_def shallow_def settings_def)
  then show "\<not> humidity shallow 1 st > 1.05"
    using SatVapPress_20_upper by simp
  have "0 < VaporConcentration st ! 0"
    using SatVapPress_pos [of 20] by (simp add: st)
  then show "\<exists>st'. lift_level shallow 1 st = Inr st'"
    by (intro lift_level_defined) (simp_all add: st)
qed

subsection \<open>The unsaturated transition\<close>

text \<open>
  C8. At a level \<open>z \<ge> 1\<close> whose computed relative humidity does not exceed 1.05, the
  vapor concentration, the vapor fraction, both vapor composition deltas and both
  precipitation composition deltas of level \<open>z\<close> are those of level \<open>z - 1\<close>, and the step
  changes no stored value of any other level (nor the altitude and temperature grids).
\<close>

theorem unsaturated_level_copies:
  assumes "rows n st" and "1 \<le> z" and "z < n"
    and "lift_level c z st = Inr st'"
    and "\<not> humidity c z st > 1.05"
  shows "VaporConcentration st' ! z = VaporConcentration st ! (z - 1)
       \<and> VaporFraction st' ! z = VaporFraction st ! (z - 1)
       \<and> VaporComposition st' ! z = VaporComposition st ! (z - 1)
       \<and> PrecComposition st' ! z = PrecComposition st ! (z - 1)
       \<and> (\<forall>j. j \<noteq> z \<longrightarrow>
             VaporConcentration st' ! j = VaporConcentration st ! j
           \<and> VaporFraction st' ! j = VaporFraction st ! j
           \<and> VaporComposition st' ! j = VaporComposition st ! j
           \<and> PrecComposition st' ! j = PrecComposition st ! j
           \<and> RHvector st' ! j = RHvector st ! j)
       \<and> Zvector st' = Zvector st \<and> Tvector st' = Tvector st \<and> rows n st'"
  using lift_level_unsaturated [OF assms] lift_level_frame [OF assms(4)]
    lift_level_grid [OF assms(4)] lift_level_rows [OF assms(4,1)]
  by simp

text \<open>The step from 0 m to 20 m under the script's settings is such a level.\<close>

theorem unsaturated_level_copies_witness:
  "\<exists>st st'. start shallow = Inr st \<and> rows 2 st \<and> lift_level shallow 1 st = Inr st'
     \<and> \<not> humidity shallow 1 st > 1.05
     \<and> VaporConcentration st' ! 1 = VaporConcentration st ! 0
     \<and> VaporFraction st' ! 1 = VaporFraction st ! 0
     \<and> VaporComposition st' ! 1 = VaporComposition st ! 0
     \<and> PrecComposition st' ! 1 = PrecComposition st ! 0
     \<and> same_row st st' 0"
proof -
  obtain st where st: "start shallow = Inr st" using start_shallow by blast
  note h = humidity_shallow [OF st]
  from h(3) obtain st' where st': "lift_level shallow 1 st = Inr st'" by blast
  have "(1::nat) \<le> 1" "(1::nat) < 2" by simp_all
  from unsaturated_level_copies [OF h(1) this st' h(2)] st st' h(1,2)
  show ?thesis by (auto simp: same_row_def)
qed

subsection \<open>The saturated transition\<close>

text \<open>
  C7. At a level \<open>z \<ge> 1\<close> whose computed relative humidity exceeds 1.05, the absolute
  ratio of the new vapor (recovered from the stored delta value) is, for 18O and for 2H
  alike, the level-0 absolute ratio times the new vapor fraction of level \<open>z\<close> raised to the
  power \<open>alpha18 (temperature z) - 1\<close>: the 18O fractionation factor is the exponent for
  both isotopes, and the base is the ratio of level 0, computed from the initial deltas.
\<close>

theorem saturated_vapor_ratio:
  assumes "rows n st" and "1 \<le> z" and "z < n"
    and "lift_level c z st = Inr st'"
    and "humidity c z st > 1.05"
  shows "ratio_of_delta VSMOW1816 (fst (VaporComposition st' ! z)) =
           R1816_0_VAP c * (VaporFraction st' ! z) powr (alpha18 (Tvector st ! z) - 1)
       \<and> ratio_of_delta VSMOW21 (snd (VaporComposition st' ! z)) =
           R21_0_VAP c * (VaporFraction st' ! z) powr (alpha18 (Tvector st ! z) - 1)
       \<and> R1816_0_VAP c = ratio_of_delta VSMOW1816 (d18O0 c)
       \<and> R21_0_VAP c = ratio_of_delta VSMOW21 (dD0 c)"
proof -
  let ?e = "(VaporFraction st' ! z) powr (alpha18 (Tvector st ! z) - 1)"
  note v = lift_level_saturated(3) [OF assms]
  have a: "fst (VaporComposition st' ! z) = (R1816_0_VAP c * ?e / VSMOW1816 - 1) * 1000"
    and b: "snd (VaporComposition st' ! z) = (R21_0_VAP c * ?e / VSMOW21 - 1) * 1000"
    using v by simp_all
  have "ratio_of_delta VSMOW1816 (fst (VaporComposition st' ! z)) = R1816_0_VAP c * ?e"
    unfolding a using VSMOW_pos(1) by (intro ratio_of_delta_inverse) simp
  moreover have "ratio_of_delta VSMOW21 (snd (VaporComposition st' ! z)) = R21_0_VAP c * ?e"
    unfolding b using VSMOW_pos(2) by (intro ratio_of_delta_inverse) simp
  ultimately show ?thesis
    by (simp add: R1816_0_VAP_def R21_0_VAP_def ratio_of_delta_def)
qed

text \<open>The step from 0 m to 4000 m under the script's settings is such a level; its
  temperature is 0 degrees Celsius.\<close>

theorem saturated_vapor_ratio_witness:
  "\<exists>st st'. start coarse = Inr st \<and> rows 2 st \<and> lift_level coarse 1 st = Inr st'
     \<and> humidity coarse 1 st > 1.05
     \<and> ratio_of_delta VSMOW1816 (fst (VaporComposition st' ! 1)) =
          R1816_0_VAP coarse * (VaporFraction st' ! 1) powr (alpha18 0 - 1)
     \<and> ratio_of_delta VSMOW21 (snd (VaporComposition st' ! 1)) =
          R21_0_VAP coarse * (VaporFraction st' ! 1) powr (alpha18 0 - 1)"
proof -
  obtain st where st: "start coarse = Inr st" using start_coarse by blast
  note h = humidity_coarse [OF st]
  from h(3) obtain st' where st': "lift_level coarse 1 st = Inr st'" by blast
  have T: "Tvector st ! 1 = 0" using st by (auto simp: start_coarse)
  have "(1::nat) \<le> 1" "(1::nat) < 2" by simp_all
  from saturated_vapor_ratio [OF h(1) this st' h(2)] st st' h(1,2) T
  show ?thesis by auto
qed

section \<open>The loop\<close>

lemma same_row_refl: "same_row s s j"
  by (simp add: same_row_def)

lemma same_row_trans: "same_row s t j \<Longrightarrow> same_row t u j \<Longrightarrow> same_row s u j"
  by (simp add: same_row_def)

lemma lift_level_same_row:
  "lift_level c z st = Inr st' \<Longrightarrow> j \<noteq> z \<Longrightarrow> same_row st st' j"
  by (simp add: same_row_def lift_level_frame)

lemma lift_level_settled:
  assumes "lift_level c z s = Inr s1" and "rows n s" and "1 \<le> z" and "z < n"
  shows "settled c s1 z"
proof -
  have z: "z - 1 \<noteq> z" "0 \<noteq> z" using assms(3) by simp_all
  note fr = lift_level_frame [OF assms(1)]
  have T: "Tvector s1 = Tvector s" using lift_level_grid [OF assms(1)] by simp
  have rh: "RHvector s1 ! z = humidity c z s"
    using lift_level_humidity [OF assms(1)] assms(2,4) by (simp add: rows_def)
  have h: "humidity c z s1 = humidity c z s"
    by (simp only: humidity_def T fr(1) [OF z(1)])
  show ?thesis
  proof (cases "humidity c z s > 1.05")
    case True
    note sat = lift_level_saturated [OF assms(2,3,4,1) True]
    show ?thesis
      unfolding settled_def rh h T fr(1) [OF z(1)] fr(1) [OF z(2)] fr(2) [OF z(1)] fr(3) [OF z(1)]
      using True sat by simp
  next
    case False
    note u = lift_level_unsaturated [OF assms(2,3,4,1) False]
    show ?thesis
      unfolding settled_def rh h u fr(1) [OF z(1)] fr(2) [OF z(1)] fr(3) [OF z(1)] fr(4) [OF z(1)]
      using False by simp
  qed
qed

lemma settled_cong:
  assumes "settled c s z" and "same_row s s' z" and "same_row s s' (z - 1)"
    and "same_row s s' 0" and "Tvector s' = Tvector s"
  shows "settled c s' z"
proof -
  have e: "VaporConcentration s' ! z = VaporConcentration s ! z"
    "VaporFraction s' ! z = VaporFraction s ! z"
    "VaporComposition s' ! z = VaporComposition s ! z"
    "PrecComposition s' ! z = PrecComposition s ! z"
    "RHvector s' ! z = RHvector s ! z"
    "VaporConcentration s' ! (z - 1) = VaporConcentration s ! (z - 1)"
    "VaporFraction s' ! (z - 1) = VaporFraction s ! (z - 1)"
    "VaporComposition s' ! (z - 1) = VaporComposition s ! (z - 1)"
    "PrecComposition s' ! (z - 1) = PrecComposition s ! (z - 1)"
    "VaporConcentration s' ! 0 = VaporConcentration s ! 0"
    using assms(2,3,4) unfolding same_row_def by blast+
  show ?thesis
    using assms(1) unfolding settled_def humidity_def e assms(5) .
qed

lemma lift_rows:
  "lift c zs s = Inr s' \<Longrightarrow> rows n s \<Longrightarrow> rows n s'"
proof (induction zs arbitrary: s)
  case Nil
  then show ?case by simp
next
  case (Cons z zs)
  then show ?case
    by (auto split: sum.splits dest: lift_level_rows)
qed

lemma lift_grid:
  "lift c zs s = Inr s' \<Longrightarrow> Zvector s' = Zvector s \<and> Tvector s' = Tvector s"
proof (induction zs arbitrary: s)
  case Nil
  then show ?case by simp
next
  case (Cons z zs)
  then show ?case
    by (auto split: sum.splits dest: lift_level_grid)
qed

lemma lift_same_row:
  "lift c zs s = Inr s' \<Longrightarrow> \<forall>z\<in>set zs. j < z \<Longrightarrow> same_row s s' j"
proof (induction zs arbitrary: s)
  case Nil
  then show ?case by (simp add: same_row_refl)
next
  case (Cons z zs)
  from Cons.prems(1) obtain s1 where s1: "lift_level c z s = Inr s1" "lift c zs s1 = Inr s'"
    by (auto split: sum.splits)
  have "same_row s s1 j" using lift_level_same_row [OF s1(1), of j] Cons.prems(2) by simp
  moreover have "same_row s1 s' j" using Cons.IH [OF s1(2)] Cons.prems(2) by simp
  ultimately show ?case by (rule same_row_trans)
qed

lemma lift_settled:
  "lift c zs s = Inr s' \<Longrightarrow> rows n s \<Longrightarrow> sorted_wrt (<) zs \<Longrightarrow> \<forall>z\<in>set zs. 1 \<le> z \<and> z < n
     \<Longrightarrow> z \<in> set zs \<Longrightarrow> settled c s' z"
proof (induction zs arbitrary: s)
  case Nil
  then show ?case by simp
next
  case (Cons y zs)
  from Cons.prems(1) obtain s1 where s1: "lift_level c y s = Inr s1" "lift c zs s1 = Inr s'"
    by (auto split: sum.splits)
  have r1: "rows n s1" using lift_level_rows [OF s1(1) Cons.prems(2)] .
  show ?case
  proof (cases "z = y")
    case True
    have y: "1 \<le> y" "y < n" using Cons.prems(4) by simp_all
    have a: "settled c s1 y" using lift_level_settled [OF s1(1) Cons.prems(2) y] .
    have later: "\<forall>x\<in>set zs. y < x" using Cons.prems(3) by simp
    have "same_row s1 s' y" "same_row s1 s' (y - 1)" "same_row s1 s' 0"
      using lift_same_row [OF s1(2), of y] lift_same_row [OF s1(2), of "y - 1"]
        lift_same_row [OF s1(2), of 0] later y by fastforce+
    moreover have "Tvector s' = Tvector s1" using lift_grid [OF s1(2)] by simp
    ultimately show ?thesis using settled_cong [OF a] True by simp
  next
    case False
    then have "z \<in> set zs" using Cons.prems(5) by simp
    then show ?thesis using Cons.IH [OF s1(2) r1] Cons.prems(3,4) by simp
  qed
qed

text \<open>The loop is defined when the guards hold at every level.\<close>

lemma lift_defined:
  assumes "\<forall>z\<in>set zs. 1 \<le> z \<and> real z \<le> 44307.69396 \<and>
             257.14 + Tvector s ! z \<noteq> 0 \<and> Tvector s ! z + 273.15 \<noteq> 0"
    and "0 < VaporConcentration s ! 0"
  shows "\<exists>s'. lift c zs s = Inr s'"
  using assms
proof (induction zs arbitrary: s)
  case Nil
  then show ?case by simp
next
  case (Cons z zs)
  have "\<exists>s1. lift_level c z s = Inr s1"
    using Cons.prems by (intro lift_level_defined) simp_all
  then obtain s1 where s1: "lift_level c z s = Inr s1" by blast
  have T: "Tvector s1 = Tvector s" using lift_level_grid [OF s1] by simp
  have "VaporConcentration s1 ! 0 = VaporConcentration s ! 0"
    using lift_level_frame(1) [OF s1, of 0] Cons.prems(1) by simp
  then have "\<exists>s'. lift c zs s1 = Inr s'"
    using Cons.prems by (intro Cons.IH) (simp_all add: T)
  then show ?case using s1 by simp
qed

text \<open>What the state before the loop looks like.\<close>

lemma start_sound:
  assumes "start c = Inr st"
  shows "rows (length (Zvector st)) st" and "0 < length (Zvector st)"
    and "Zvector_of c = Inr (Zvector st)"
    and "Tvector st = map (\<lambda>Z. Tz0 c - (Z * MLR c / 1000)) (Zvector st)"
    and "VaporConcentration st ! 0 = 1000000 * (RH0 c) * SatVapPress (Tz0 c) / P0 c"
    and "VaporFraction st ! 0 = 1"
    and "VaporComposition st ! 0 = (d18O0 c, dD0 c)"
    and "\<forall>j < length (Zvector st). PrecComposition st ! j = (Num 0, Num 0)"
    and "P0 c \<noteq> 0"
  using assms
  by (auto simp: start_def allocate_def assign_initial_def rows_def
      split: sum.splits if_splits)

lemma forward_pass_sound:
  assumes "forward_pass c = Inr st"
  shows "rows (length (Zvector st)) st" and "0 < length (Zvector st)"
    and "Zvector_of c = Inr (Zvector st)"
    and "Tvector st = map (\<lambda>Z. Tz0 c - (Z * MLR c / 1000)) (Zvector st)"
    and "VaporConcentration st ! 0 = 1000000 * (RH0 c) * SatVapPress (Tz0 c) / P0 c"
    and "VaporFraction st ! 0 = 1"
    and "VaporComposition st ! 0 = (d18O0 c, dD0 c)"
    and "PrecComposition st ! 0 = (Num 0, Num 0)"
    and "P0 c \<noteq> 0"
    and "\<And>z. 1 \<le> z \<Longrightarrow> z < length (Zvector st) \<Longrightarrow> settled c st z"
proof -
  from assms obtain s1 where s1: "start c = Inr s1"
    and l: "lift c [1..<length (Zvector s1)] s1 = Inr st"
    by (auto simp: forward_pass_def split: sum.splits)
  note ss = start_sound [OF s1]
  have g: "Zvector st = Zvector s1" "Tvector st = Tvector s1" using lift_grid [OF l] by simp_all
  have r0: "same_row s1 st 0" using lift_same_row [OF l, of 0] by simp
  show "rows (length (Zvector st)) st" using lift_rows [OF l ss(1)] g by simp
  show "0 < length (Zvector st)" using ss(2) g by simp
  show "Zvector_of c = Inr (Zvector st)" using ss(3) g by simp
  show "Tvector st = map (\<lambda>Z. Tz0 c - (Z * MLR c / 1000)) (Zvector st)" using ss(4) g by simp
  show "VaporConcentration st ! 0 = 1000000 * (RH0 c) * SatVapPress (Tz0 c) / P0 c"
    using ss(5) r0 by (simp add: same_row_def)
  show "VaporFraction st ! 0 = 1" using ss(6) r0 by (simp add: same_row_def)
  show "VaporComposition st ! 0 = (d18O0 c, dD0 c)" using ss(7) r0 by (simp add: same_row_def)
  show "PrecComposition st ! 0 = (Num 0, Num 0)" using ss(8,2) r0 by (simp add: same_row_def)
  show "P0 c \<noteq> 0" by (rule ss(9))
  show "settled c st z" if "1 \<le> z" "z < length (Zvector st)" for z
    using lift_settled [OF l ss(1), of z] that g by simp
qed

section \<open>The cleanup\<close>

lemma clean_all_zero:
  "\<forall>j. i \<le> j \<and> j < length pc \<longrightarrow> fst (pc ! j) = Num 0 \<Longrightarrow> clean i pc = Inl IndexError"
proof (induction i pc rule: clean.induct)
  case (1 i pc)
  show ?case
  proof (cases "length pc \<le> i")
    case True
    then show ?thesis by (subst clean.simps) simp
  next
    case False
    then have z: "fst (pc ! i) = Num 0" using "1.prems" by simp
    have "clean (i + 1) (pc[i := (NaN, NaN)]) = Inl IndexError"
      using False z "1.prems" by (intro "1.IH") simp_all
    then show ?thesis using False z by (subst clean.simps) simp
  qed
qed



text \<open>Below the first level that condenses the precipitation rows are the zeros of the
  allocation.\<close>

lemma unsaturated_prefix_zero:
  assumes "forward_pass c = Inr st"
    and "\<forall>z. 1 \<le> z \<and> z < k \<longrightarrow> \<not> RHvector st ! z > 1.05"
    and "k \<le> length (Zvector st)"
  shows "j < k \<Longrightarrow> PrecComposition st ! j = (Num 0, Num 0)"
proof (induction j)
  case 0
  show ?case by (rule forward_pass_sound(8) [OF assms(1)])
next
  case (Suc j)
  have "settled c st (Suc j)"
    using Suc.prems assms(3) by (intro forward_pass_sound(10) [OF assms(1)]) simp_all
  moreover have "\<not> RHvector st ! Suc j > 1.05" using assms(2) Suc.prems by simp
  ultimately have "PrecComposition st ! Suc j = PrecComposition st ! j"
    by (simp add: settled_def)
  then show ?case using Suc by simp
qed

section \<open>The script's grid\<close>

text \<open>The script's grid: 400 levels, 4000 / 399 m apart.\<close>

lemma Zvector_of_settings:
  "Zvector_of (settings\<lparr>RH0 := r\<rparr>) = Inr (linspace 0 4000 400)"
  by (simp add: Zvector_of_def settings_def np_int_def Let_def fl_4000 fl_400)

lemma length_linspace: "length (linspace a b n) = n"
  by (simp add: linspace_def)

lemma nth_linspace:
  "i < n \<Longrightarrow> linspace a b n ! i = a + real i * ((b - a) / real (n - 1))"
  by (auto simp: linspace_def)

lemma start_settings:
  assumes "start (settings\<lparr>RH0 := r\<rparr>) = Inr st"
  shows "length (Zvector st) = 400"
    and "\<And>z. z < 400 \<Longrightarrow> Zvector st ! z = real z * (4000 / 399)"
    and "\<And>z. z < 400 \<Longrightarrow> Tvector st ! z = 20 - real z * (20 / 399)"
proof -
  note ss = start_sound [OF assms]
  have Z: "Zvector st = linspace 0 4000 400"
    using ss(3) by (simp add: Zvector_of_settings)
  show "length (Zvector st) = 400" by (simp add: Z length_linspace)
  show "Zvector st ! z = real z * (4000 / 399)" if "z < 400" for z
    using that by (simp add: Z nth_linspace)
  show "Tvector st ! z = 20 - real z * (20 / 399)" if "z < 400" for z
    using that by (simp add: ss(4) Z nth_linspace length_linspace settings_def)
qed

lemma start_defined:
  assumes "Zvector_of c = Inr Zs" and "Zs \<noteq> []" and "257.14 + Tz0 c \<noteq> 0" and "P0 c \<noteq> 0"
  shows "\<exists>st. start c = Inr st"
  using assms by (simp add: start_def allocate_def assign_initial_def)

lemma linspace_not_empty: "0 < n \<Longrightarrow> linspace a b n \<noteq> []"
  using length_linspace [of a b n] by auto

lemma start_settings_defined:
  "\<exists>st. start (settings\<lparr>RH0 := r\<rparr>) = Inr st"
proof (rule start_defined [OF Zvector_of_settings])
  show "linspace 0 4000 400 \<noteq> []" by (rule linspace_not_empty) simp
qed (simp_all add: settings_def)

lemma forward_pass_settings_defined:
  assumes "0 < r"
  shows "\<exists>st. forward_pass (settings\<lparr>RH0 := r\<rparr>) = Inr st"
proof -
  let ?c = "settings\<lparr>RH0 := r\<rparr>"
  obtain s1 where s1: "start ?c = Inr s1" using start_settings_defined by blast
  note g = start_settings [OF s1]
  have T: "0 \<le> Tvector s1 ! z" if "z < 400" for z
  proof -
    have "real z * (20 / 399) \<le> 20" using that by simp
    then show ?thesis using g(3) [OF that] by simp
  qed
  have e: "VaporConcentration s1 ! 0 = 1000000 * r * SatVapPress 20 / 1013.25"
    using start_sound(5) [OF s1] by (simp add: settings_def)
  have v: "0 < VaporConcentration s1 ! 0"
    unfolding e using assms SatVapPress_pos [of 20] by simp
  have "\<exists>s'. lift ?c [1..<length (Zvector s1)] s1 = Inr s'"
  proof (rule lift_defined [OF _ v], rule ballI)
    fix z assume "z \<in> set [1..<length (Zvector s1)]"
    then have z: "1 \<le> z" "z < 400" using g(1) by simp_all
    from T [OF z(2)] z
    show "1 \<le> z \<and> real z \<le> 44307.69396 \<and> 257.14 + Tvector s1 ! z \<noteq> 0
        \<and> Tvector s1 ! z + 273.15 \<noteq> 0" by simp
  qed
  then show ?thesis using s1 by (simp add: forward_pass_def)
qed

lemma forward_pass_settings:
  assumes "forward_pass (settings\<lparr>RH0 := r\<rparr>) = Inr st"
  shows "length (Zvector st) = 400"
    and "\<And>z. z < 400 \<Longrightarrow> Zvector st ! z = real z * (4000 / 399)"
    and "\<And>z. z < 400 \<Longrightarrow> Tvector st ! z = 20 - real z * (20 / 399)"
    and "VaporConcentration st ! 0 = 1000000 * r * SatVapPress 20 / 1013.25"
proof -
  note fs = forward_pass_sound [OF assms]
  have Z: "Zvector st = linspace 0 4000 400"
    using fs(3) by (simp add: Zvector_of_settings)
  show "length (Zvector st) = 400" by (simp add: Z length_linspace)
  show "Zvector st ! z = real z * (4000 / 399)" if "z < 400" for z
    using that by (simp add: Z nth_linspace)
  show "Tvector st ! z = 20 - real z * (20 / 399)" if "z < 400" for z
    using that by (simp add: fs(4) Z nth_linspace length_linspace settings_def)
  show "VaporConcentration st ! 0 = 1000000 * r * SatVapPress 20 / 1013.25"
    using fs(5) by (simp add: settings_def)
qed

text \<open>While nothing condenses, the vapor concentration stays that of level 0.\<close>

lemma unsaturated_prefix:
  assumes "forward_pass c = Inr st"
    and "\<forall>z. 1 \<le> z \<and> z < k \<longrightarrow>
           \<not> ((VaporConcentration st ! 0 / 1000000) * P0 c) / SatVapPress (Tvector st ! z) > 1.05"
    and "k \<le> length (Zvector st)"
  shows "z < k \<Longrightarrow> VaporConcentration st ! z = VaporConcentration st ! 0
           \<and> (1 \<le> z \<longrightarrow> \<not> RHvector st ! z > 1.05)"
proof (induction z)
  case 0
  show ?case by simp
next
  case (Suc z)
  have s: "settled c st (Suc z)"
    using Suc.prems assms(3) by (intro forward_pass_sound(10) [OF assms(1)]) simp_all
  have "VaporConcentration st ! z = VaporConcentration st ! 0" using Suc by simp
  then have "RHvector st ! Suc z
      = ((VaporConcentration st ! 0 / 1000000) * P0 c) / SatVapPress (Tvector st ! Suc z)"
    using s by (simp add: settled_def humidity_def)
  then have u: "\<not> RHvector st ! Suc z > 1.05" using assms(2) Suc.prems by simp
  then have "VaporConcentration st ! Suc z = VaporConcentration st ! z"
    using s by (simp add: settled_def)
  then show ?case using Suc u by simp
qed

lemma exp_2_le: "exp (2::real) \<le> 9"
proof -
  have "exp (2::real) = exp 1 * exp 1" by (simp add: exp_add [symmetric])
  also have "\<dots> \<le> 3 * 3" by (intro mult_mono exp_le) simp_all
  finally show ?thesis by simp
qed

text \<open>Between 0 and 20 degrees the saturation vapor pressure is at least that of 0 degrees
  and that of 20 degrees is less than nine times as much.\<close>

lemma SatVapPress_20_over:
  assumes "0 \<le> T" and "T \<le> 20"
  shows "SatVapPress 20 / SatVapPress T \<le> 9"
proof -
  let ?g = "\<lambda>T::real. (18.678 - T / 234.5) * (T / (257.14 + T))"
  have "0 \<le> ?g T" using assms by (intro mult_nonneg_nonneg divide_nonneg_nonneg) simp_all
  moreover have "?g 20 \<le> 2" by simp
  ultimately have "?g 20 - ?g T \<le> 2" by linarith
  then have "exp (?g 20 - ?g T) \<le> exp 2" by simp
  then show ?thesis using exp_2_le by (simp only: SatVapPress_ratio)
qed

lemma arid_never_saturated:
  assumes "forward_pass arid = Inr st"
  shows "\<forall>z. 1 \<le> z \<and> z < length (Zvector st) \<longrightarrow> \<not> RHvector st ! z > 1.05"
proof -
  have a: "forward_pass (settings\<lparr>RH0 := 0.1\<rparr>) = Inr st" using assms by (simp add: arid_def)
  note g = forward_pass_settings [OF a]
  have "\<not> ((VaporConcentration st ! 0 / 1000000) * P0 arid) / SatVapPress (Tvector st ! z) > 1.05"
    if "1 \<le> z" "z < 400" for z
  proof -
    have "real z * (20 / 399) \<le> 20" using that by simp
    then have T: "0 \<le> Tvector st ! z" "Tvector st ! z \<le> 20" using g(3) [OF that(2)] by simp_all
    have "((VaporConcentration st ! 0 / 1000000) * P0 arid) / SatVapPress (Tvector st ! z)
        = 0.1 * (SatVapPress 20 / SatVapPress (Tvector st ! z))"
      by (simp add: g(4) arid_def settings_def)
    then show ?thesis using SatVapPress_20_over [OF T] by simp
  qed
  then have h: "\<forall>z. 1 \<le> z \<and> z < length (Zvector st) \<longrightarrow>
    \<not> ((VaporConcentration st ! 0 / 1000000) * P0 arid) / SatVapPress (Tvector st ! z) > 1.05"
    unfolding g(1) by blast
  show ?thesis
    using unsaturated_prefix [OF assms h order_refl] by blast
qed

section \<open>Runs in which nothing condenses\<close>

text \<open>
  C10. If no level of a run is saturated, that is, the relative humidity computed at every
  level from 1 on does not exceed 1.05, then every row of the precipitation array still
  holds the zeros of its allocation, the cleanup loop reads the row after the last one, and
  the run ends with \<open>IndexError\<close> instead of a profile.
\<close>

theorem never_saturated_run_fails:
  assumes "forward_pass c = Inr st"
    and "\<forall>z. 1 \<le> z \<and> z < length (Zvector st) \<longrightarrow> \<not> RHvector st ! z > 1.05"
  shows "(\<forall>j < length (Zvector st). PrecComposition st ! j = (Num 0, Num 0))
       \<and> clean 0 (PrecComposition st) = Inl IndexError
       \<and> simulate c = Inl IndexError"
proof -
  have z: "\<forall>j < length (Zvector st). PrecComposition st ! j = (Num 0, Num 0)"
    using unsaturated_prefix_zero [OF assms(1), of "length (Zvector st)"] assms(2) by simp
  have "length (PrecComposition st) = length (Zvector st)"
    using forward_pass_sound(1) [OF assms(1)] by (simp add: rows_def)
  then have "clean 0 (PrecComposition st) = Inl IndexError"
    using z by (intro clean_all_zero) simp
  then show ?thesis using z assms(1) by (simp add: simulate_def)
qed

text \<open>The script's settings with 10 % relative humidity at the base: 400 levels, none of
  them saturated, and the run fails in the cleanup.\<close>

theorem never_saturated_run_fails_witness:
  "\<exists>st. forward_pass arid = Inr st \<and> length (Zvector st) = 400
     \<and> \<not> RHvector st ! 399 > 1.05
     \<and> PrecComposition st ! 399 = (Num 0, Num 0)
     \<and> clean 0 (PrecComposition st) = Inl IndexError
     \<and> simulate arid = Inl IndexError"
proof -
  obtain st where st: "forward_pass arid = Inr st"
    using forward_pass_settings_defined [of "0.1"] by (auto simp: arid_def)
  have n: "length (Zvector st) = 400"
    using forward_pass_settings(1) [of "0.1" st] st by (simp add: arid_def)
  note dry = arid_never_saturated [OF st]
  from never_saturated_run_fails [OF st dry] st n dry
  show ?thesis by auto
qed

section \<open>The residual vapor fraction\<close>






lemma settings_RH0: "settings\<lparr>RH0 := 85 / 100\<rparr> = settings"
  by (simp add: settings_def)

lemma forward_pass_script_defined: "\<exists>st. forward_pass settings = Inr st"
  using forward_pass_settings_defined [of "85 / 100"] unfolding settings_RH0 by simp

lemma forward_pass_script:
  assumes "forward_pass settings = Inr st"
  shows "length (Zvector st) = 400"
    and "\<And>z. z < 400 \<Longrightarrow> Zvector st ! z = real z * (4000 / 399)"
    and "\<And>z. z < 400 \<Longrightarrow> Tvector st ! z = 20 - real z * (20 / 399)"
    and "VaporConcentration st ! 0 = 1000000 * (85 / 100) * SatVapPress 20 / 1013.25"
  using forward_pass_settings [of "85 / 100" st] assms unfolding settings_RH0 by blast+

text \<open>While no level condenses, the vapor concentration is that of level 0.\<close>

lemma never_saturated_concentration:
  assumes "forward_pass c = Inr st"
    and "\<forall>z. 1 \<le> z \<and> z < k \<longrightarrow> \<not> RHvector st ! z > 1.05"
    and "k \<le> length (Zvector st)"
  shows "z < k \<Longrightarrow> VaporConcentration st ! z = VaporConcentration st ! 0"
proof (induction z)
  case 0
  show ?case by simp
next
  case (Suc z)
  have "settled c st (Suc z)"
    using Suc.prems assms(3) by (intro forward_pass_sound(10) [OF assms(1)]) simp_all
  moreover have "\<not> RHvector st ! Suc z > 1.05" using assms(2) Suc.prems by simp
  ultimately have "VaporConcentration st ! Suc z = VaporConcentration st ! z"
    by (simp add: settled_def)
  then show ?case using Suc by simp
qed

text \<open>The script's run condenses somewhere: if it did not, the top level, at 0 degrees,
  would see the vapor of level 0 at a relative humidity of at least 1.7.\<close>

lemma script_condenses:
  assumes "forward_pass settings = Inr st"
  shows "\<exists>z. 1 \<le> z \<and> z < 400 \<and> RHvector st ! z > 1.05"
proof (rule ccontr)
  assume "\<not> ?thesis"
  then have dry: "\<forall>z. 1 \<le> z \<and> z < 400 \<longrightarrow> \<not> RHvector st ! z > 1.05" by blast
  note g = forward_pass_script [OF assms]
  have "VaporConcentration st ! 398 = VaporConcentration st ! 0"
    using never_saturated_concentration [OF assms, of 400 398] dry g(1) by simp
  moreover have "settled settings st 399"
    using g(1) by (intro forward_pass_sound(10) [OF assms]) simp_all
  moreover have "Tvector st ! 399 = 0" using g(3) [of 399] by simp
  ultimately have "RHvector st ! 399 = 0.85 * (SatVapPress 20 / SatVapPress 0)"
    using g(4) by (simp add: settled_def humidity_def settings_def)
  moreover have "2 \<le> SatVapPress 20 / SatVapPress 0"
    using SatVapPress_20_lower SatVapPress_pos [of 0] by (simp add: field_simps)
  ultimately have "RHvector st ! 399 > 1.05" by simp
  then show False using dry by simp
qed







section \<open>The pressure of a saturated level\<close>

lemma m2hPa_strict_antimono:
  assumes "a < b" and "b \<le> 44307.69396"
  shows "m2hPa b < m2hPa a"
proof -
  have "(1 - (b / 44307.69396)) powr (1 / 0.190284) < (1 - (a / 44307.69396)) powr (1 / 0.190284)"
    using assms by (intro powr_less_mono2) simp_all
  then show ?thesis by (simp add: m2hPa_def)
qed

text \<open>
  C1 on the script's own run. Some level \<open>z\<close> between 1 and 399 is saturated, and there
  the new vapor concentration is \<open>1e6\<close> times the saturation vapor pressure at the
  temperature of the level divided by \<open>m2hPa\<close> of the loop index \<open>z\<close>. The altitude of
  that level is \<open>z * 4000 / 399\<close> m, and the pressure \<open>m2hPa\<close> gives for that altitude is a
  different one, so the stored concentration is not the one the claim describes.
\<close>

theorem saturated_concentration_uses_level_index:
  "\<exists>st z. forward_pass settings = Inr st \<and> 1 \<le> z \<and> z < 400 \<and> RHvector st ! z > 1.05
     \<and> Zvector st ! z = real z * (4000 / 399)
     \<and> VaporConcentration st ! z = 1000000 * SatVapPress (Tvector st ! z) / m2hPa (real z)
     \<and> VaporConcentration st ! z
         \<noteq> 1000000 * SatVapPress (Tvector st ! z) / m2hPa (Zvector st ! z)"
proof -
  obtain st where st: "forward_pass settings = Inr st"
    using forward_pass_script_defined by blast
  note g = forward_pass_script [OF st]
  obtain z where z: "1 \<le> z" "z < 400" "RHvector st ! z > 1.05"
    using script_condenses [OF st] by blast
  have "settled settings st z" using z g(1) by (intro forward_pass_sound(10) [OF st]) simp_all
  then have v: "VaporConcentration st ! z
      = 1000000 * SatVapPress (Tvector st ! z) / m2hPa (real z)"
    using z(3) by (simp add: settled_def)
  have Z: "Zvector st ! z = real z * (4000 / 399)" by (rule g(2) [OF z(2)])
  have "real z < real z * (4000 / 399)" using z(1) by simp
  moreover have "real z * (4000 / 399) \<le> 44307.69396" using z(2) by simp
  ultimately have lt: "m2hPa (real z * (4000 / 399)) < m2hPa (real z)"
    by (rule m2hPa_strict_antimono)
  have "0 < m2hPa (real z * (4000 / 399))" using z(2) by (intro m2hPa_pos) simp
  then have "1000000 * SatVapPress (Tvector st ! z) / m2hPa (real z)
      \<noteq> 1000000 * SatVapPress (Tvector st ! z) / m2hPa (real z * (4000 / 399))"
    using lt SatVapPress_pos [of "Tvector st ! z"] by (simp add: field_simps)
  then have ne: "VaporConcentration st ! z
      \<noteq> 1000000 * SatVapPress (Tvector st ! z) / m2hPa (Zvector st ! z)"
    unfolding v Z .
  show ?thesis
    by (intro exI [of _ st] exI [of _ z] conjI st z v Z ne)
qed

section \<open>The altitude grid\<close>

lemma np_int_nat: "0 \<le> np_int x \<Longrightarrow> int (nat (np_int x)) = np_int x"
  by simp





section \<open>The precipitation composition\<close>


lemma np_divide_zero:
  "np_divide a 0 = (if a = 0 then NaN else if 0 < a then PosInf else NegInf)"
  by (simp add: np_divide_def)





lemma two_levels:
  assumes "start c = Inr s1" and "length (Zvector s1) = 2"
  shows "forward_pass c = lift_level c 1 s1"
proof -
  have "[1..<2] = [1::nat]" by (simp add: numeral_2_eq_2)
  then show ?thesis using assms by (simp add: forward_pass_def split: sum.splits)
qed







lemma start_degenerate:
  "start degenerate = Inr \<lparr>Zvector = [0, 4000], Tvector = [20, 20],
     VaporConcentration = [1000000 * 2 * SatVapPress 20 / (2 * m2hPa 1), 0],
     VaporComposition = [(0, 0), (0, 0)],
     VaporFraction = [1, 0], PrecComposition = [(Num 0, Num 0), (Num 0, Num 0)],
     RHvector = [2, 0]\<rparr>"
  using m2hPa_pos [of 1]
  by (simp add: start_def assign_initial_def allocate_def Zvector_of_def degenerate_def settings_def
      np_int_def linspace_def upt2 Let_def numeral_2_eq_2 fl_4000 fl_2)

text \<open>The run of \<open>degenerate\<close>: level 1 condenses and keeps the vapor fraction 1 and the
  composition of level 0.\<close>

lemma degenerate_run:
  obtains s1 st where "start degenerate = Inr s1" and "rows 2 s1"
    and "lift_level degenerate 1 s1 = Inr st" and "forward_pass degenerate = Inr st"
    and "humidity degenerate 1 s1 = 2"
    and "VaporFraction s1 ! 0 = 1" and "VaporFraction st ! 1 = 1"
    and "VaporComposition s1 ! 0 = (0, 0)" and "VaporComposition st ! 1 = (0, 0)"
    and "257.14 + Tvector s1 ! 1 \<noteq> 0" and "Tvector s1 ! 1 + 273.15 \<noteq> 0"
    and "0 < VaporConcentration s1 ! 0"
proof -
  let ?s1 = "\<lparr>Zvector = [0, 4000], Tvector = [20, 20],
     VaporConcentration = [1000000 * 2 * SatVapPress 20 / (2 * m2hPa 1), 0],
     VaporComposition = [(0, 0), (0, 0)],
     VaporFraction = [1, 0], PrecComposition = [(Num 0, Num 0), (Num 0, Num 0)],
     RHvector = [2, 0]\<rparr>"
  have m: "0 < m2hPa 1" using m2hPa_pos [of 1] by simp
  have S: "0 < SatVapPress 20" by (rule SatVapPress_pos)
  have r: "rows 2 ?s1" by (simp add: rows_def)
  have h: "humidity degenerate 1 ?s1 = 2"
    using m S by (simp add: humidity_def degenerate_def settings_def)
  have v0: "0 < VaporConcentration ?s1 ! 0" using m S by simp
  then have "\<exists>st. lift_level degenerate 1 ?s1 = Inr st"
    by (intro lift_level_defined) simp_all
  then obtain st where st: "lift_level degenerate 1 ?s1 = Inr st" by blast
  have one: "(1::nat) \<le> 1" "(1::nat) < 2" by simp_all
  have h': "humidity degenerate 1 ?s1 > 1.05" unfolding h by simp
  note sat = lift_level_saturated [OF r one st h']
  have f1: "VaporFraction st ! 1 = 1" using sat(1,2) m S by simp
  have q: "(R1816_0_VAP degenerate * 1 / VSMOW1816 - 1) * 1000 = 0"
    "(R21_0_VAP degenerate * 1 / VSMOW21 - 1) * 1000 = 0"
    by (simp_all add: R1816_0_VAP_def R21_0_VAP_def degenerate_def settings_def
        VSMOW1816_def VSMOW21_def)
  have "(1::real) powr (alpha18 (Tvector ?s1 ! 1) - 1) = 1" by simp
  then have c1: "VaporComposition st ! 1 = (0, 0)"
    using sat(3) unfolding f1 by (simp only: q)
  have fp: "forward_pass degenerate = Inr st"
    using two_levels [OF start_degenerate] st by simp
  show ?thesis
    by (rule that [OF start_degenerate r st fp h _ f1 _ c1 _ _ v0]) simp_all
qed



section \<open>The mass balance at equal vapor fractions\<close>

text \<open>
  C6, as the code has it. At a saturated level the step is computed whenever the guards of
  the model hold, also when the new vapor fraction equals that of the level below: no error
  is raised. In that case each precipitation entry is NaN when the numerator of its mass
  balance is zero as well, plus infinity when the numerator is positive and minus infinity
  when it is negative; it is never an ordinary number.
\<close>

theorem degenerate_mass_balance:
  assumes "rows n st" and "1 \<le> z" and "z < n"
    and "257.14 + Tvector st ! z \<noteq> 0" and "Tvector st ! z + 273.15 \<noteq> 0"
    and "real z \<le> 44307.69396" and "0 < VaporConcentration st ! 0"
    and "humidity c z st > 1.05"
  shows "\<exists>st'. lift_level c z st = Inr st' \<and>
     (VaporFraction st ! (z - 1) = VaporFraction st' ! z \<longrightarrow>
        fst (PrecComposition st' ! z) =
          (let N = VaporFraction st ! (z - 1) * fst (VaporComposition st ! (z - 1))
                     - VaporFraction st' ! z * fst (VaporComposition st' ! z)
           in if N = 0 then NaN else if 0 < N then PosInf else NegInf) \<and>
        snd (PrecComposition st' ! z) =
          (let N = VaporFraction st ! (z - 1) * snd (VaporComposition st ! (z - 1))
                     - VaporFraction st' ! z * snd (VaporComposition st' ! z)
           in if N = 0 then NaN else if 0 < N then PosInf else NegInf) \<and>
        (\<forall>r. fst (PrecComposition st' ! z) \<noteq> Num r) \<and>
        (\<forall>r. snd (PrecComposition st' ! z) \<noteq> Num r))"
proof -
  obtain st' where st': "lift_level c z st = Inr st'"
    using lift_level_defined [OF assms(4,5,6,7,2)] by blast
  note sat = lift_level_saturated(4) [OF assms(1,2,3) st' assms(8)]
  have "fst (PrecComposition st' ! z) =
          (let N = VaporFraction st ! (z - 1) * fst (VaporComposition st ! (z - 1))
                     - VaporFraction st' ! z * fst (VaporComposition st' ! z)
           in if N = 0 then NaN else if 0 < N then PosInf else NegInf) \<and>
        snd (PrecComposition st' ! z) =
          (let N = VaporFraction st ! (z - 1) * snd (VaporComposition st ! (z - 1))
                     - VaporFraction st' ! z * snd (VaporComposition st' ! z)
           in if N = 0 then NaN else if 0 < N then PosInf else NegInf) \<and>
        (\<forall>r. fst (PrecComposition st' ! z) \<noteq> Num r) \<and>
        (\<forall>r. snd (PrecComposition st' ! z) \<noteq> Num r)"
    if eq: "VaporFraction st ! (z - 1) = VaporFraction st' ! z"
  proof -
    have d: "VaporFraction st ! (z - 1) - VaporFraction st' ! z = 0" using eq by simp
    show ?thesis unfolding sat d by (simp add: np_divide_zero Let_def)
  qed
  then show ?thesis using st' by blast
qed

text \<open>Level 1 of \<open>degenerate\<close>: the fractions of levels 0 and 1 are both 1, all deltas
  are 0 and so are both numerators; the step returns and stores NaN in both columns.\<close>

theorem degenerate_mass_balance_witness:
  "\<exists>s1 st'. start degenerate = Inr s1 \<and> rows 2 s1 \<and> humidity degenerate 1 s1 > 1.05
     \<and> lift_level degenerate 1 s1 = Inr st'
     \<and> VaporFraction s1 ! 0 = VaporFraction st' ! 1
     \<and> VaporFraction s1 ! 0 * fst (VaporComposition s1 ! 0)
          - VaporFraction st' ! 1 * fst (VaporComposition st' ! 1) = 0
     \<and> PrecComposition st' ! 1 = (NaN, NaN)"
proof -
  obtain s1 st where s1: "start degenerate = Inr s1" and r: "rows 2 s1"
    and st: "lift_level degenerate 1 s1 = Inr st"
    and h: "humidity degenerate 1 s1 = 2"
    and f: "VaporFraction s1 ! 0 = 1" "VaporFraction st ! 1 = 1"
    and c: "VaporComposition s1 ! 0 = (0, 0)" "VaporComposition st ! 1 = (0, 0)"
    and g: "257.14 + Tvector s1 ! 1 \<noteq> 0" "Tvector s1 ! 1 + 273.15 \<noteq> 0"
      "0 < VaporConcentration s1 ! 0"
    by (rule degenerate_run)
  have one: "(1::nat) \<le> 1" "(1::nat) < 2" "real (1::nat) \<le> 44307.69396" by simp_all
  have h': "humidity degenerate 1 s1 > 1.05" unfolding h by simp
  from degenerate_mass_balance [OF r one(1,2) g(1,2) one(3) g(3) h']
  obtain st' where st': "lift_level degenerate 1 s1 = Inr st'"
    and m: "VaporFraction s1 ! (1 - 1) = VaporFraction st' ! 1 \<longrightarrow>
        fst (PrecComposition st' ! 1) =
          (let N = VaporFraction s1 ! (1 - 1) * fst (VaporComposition s1 ! (1 - 1))
                     - VaporFraction st' ! 1 * fst (VaporComposition st' ! 1)
           in if N = 0 then NaN else if 0 < N then PosInf else NegInf) \<and>
        snd (PrecComposition st' ! 1) =
          (let N = VaporFraction s1 ! (1 - 1) * snd (VaporComposition s1 ! (1 - 1))
                     - VaporFraction st' ! 1 * snd (VaporComposition st' ! 1)
           in if N = 0 then NaN else if 0 < N then PosInf else NegInf) \<and>
        (\<forall>r. fst (PrecComposition st' ! 1) \<noteq> Num r) \<and>
        (\<forall>r. snd (PrecComposition st' ! 1) \<noteq> Num r)"
    by blast
  have e: "st' = st" using st st' by simp
  have "fst (PrecComposition st' ! 1) = NaN" "snd (PrecComposition st' ! 1) = NaN"
    using m f c unfolding e by simp_all
  then have "PrecComposition st' ! 1 = (NaN, NaN)" by (simp add: prod_eq_iff)
  then show ?thesis using s1 r h' st' f c unfolding e by auto
qed

text \<open>
  C6 as stated fails whenever the numerators do not vanish with the denominator. Take the
  script's settings with \<open>MLR = 0\<close>, \<open>Zres = 2000\<close>, \<open>RH0 = 2\<close> and \<open>P0 = 2 * m2hPa 1\<close>. At
  level 1 the program holds the vapor fraction 1 for both levels 0 and 1, the deltas
  \<open>- 12\<close> and \<open>- 86\<close> for level 0, and for level 1 the deltas it has just computed, the doubles
  \<^verbatim>\<open>-12.00000000000012\<close> and \<^verbatim>\<open>-85.99999999999997\<close>. On these values the mass balance
  raises no error and gives no NaN: it stores plus infinity for 18O and minus infinity
  for 2H.
\<close>

theorem infinite_precipitation_counterexample:
  "mass_balance 1 (- 12) 1 (fl (- 12.00000000000012)) = PosInf
   \<and> mass_balance 1 (- 86) 1 (fl (- 85.99999999999997)) = NegInf"
  unfolding mass_balance_def fl_delta18 fl_deltaD by (simp add: np_divide_def)

end
